theory Spec2Isabelle
  imports Main "HOL-Library.Multiset"
begin

section \<open>The allowance ledger of app.py\<close>

text \<open>
  The program is one Streamlit script, \<^verbatim>\<open>src/app.py\<close>. Its state is the data frame
  \<^verbatim>\<open>st.session_state.data\<close> with the columns date, type, category, amount, note. Every
  assignment to it ends with a fresh positional index (\<^verbatim>\<open>ignore_index=True\<close>,
  \<^verbatim>\<open>reset_index(drop=True)\<close>, the default index of \<^verbatim>\<open>read_csv\<close>), so the frame is
  modelled as the list of its rows and an index label is a position in that list.

  What pandas does inside \<^verbatim>\<open>read_csv\<close> and \<^verbatim>\<open>sort_values\<close> is not code of this
  repository. The outcome of \<^verbatim>\<open>read_csv\<close> is an input of the upload handler, and
  \<^verbatim>\<open>sort_values\<close> is a parameter \<open>sv\<close> of everything that sorts.
\<close>

subsection \<open>Strings and labels\<close>

text \<open>A Python \<^verbatim>\<open>str\<close> is the list of its Unicode code points.\<close>

type_synonym pystr = "nat list"

definition py :: "string \<Rightarrow> pystr" where
  "py s = map of_char s"

text \<open>The two options of the selectbox (line 22) and the default category (line 33).\<close>

definition expense_label :: pystr where
  "expense_label = [0xC9C0, 0xCD9C]"

definition income_label :: pystr where
  "income_label = [0xC218, 0xC785]"

definition default_category :: pystr where
  "default_category = [0xAE30, 0xD0C0]"

text \<open>The code points \<^verbatim>\<open>str.strip()\<close> removes when called without an argument.\<close>

definition is_space :: "nat \<Rightarrow> bool" where
  "is_space c = (c \<in> set [0x9, 0xA, 0xB, 0xC, 0xD, 0x1C, 0x1D, 0x1E, 0x1F, 0x20, 0x85, 0xA0,
     0x1680, 0x2000, 0x2001, 0x2002, 0x2003, 0x2004, 0x2005, 0x2006, 0x2007, 0x2008, 0x2009,
     0x200A, 0x2028, 0x2029, 0x202F, 0x205F, 0x3000])"

definition strip :: "pystr \<Rightarrow> pystr" where
  "strip s = rev (dropWhile is_space (rev (dropWhile is_space s)))"

subsection \<open>Rows, frames and messages\<close>

text \<open>The column \<^verbatim>\<open>note\<close> is the field \<open>note'\<close>: \<open>note\<close> is a keyword of Isabelle.\<close>

text \<open>
  A row of the ledger. The types of the date and amount cells are parameters: the form
  produces a timestamp and a float, \<^verbatim>\<open>read_csv\<close> produces whatever it inferred for the
  column. The arithmetic of the summary is modelled on an ordered ring (\<open>int\<close>, \<open>rat\<close>,
  \<open>real\<close>): exact arithmetic, which the floats of the program agree with on whole
  amounts below \<open>2^53\<close>.
\<close>

record ('d, 'a) row =
  date :: 'd
  type :: pystr
  category :: pystr
  amount :: 'a
  note' :: pystr

type_synonym ('d, 'a) ledger = "('d, 'a) row list"

text \<open>
  The frame \<^verbatim>\<open>read_csv\<close> returned: its column names, and its body read through the five
  ledger columns. The cells of any other column are dropped by the selection of line 50;
  the cells of an absent ledger column are never read, since line 49 rejects the frame.
\<close>

record ('d, 'a) frame =
  columns :: "pystr list"
  rows :: "('d, 'a) row list"

text \<open>Line 47 either raises (the exception's text) or returns a frame.\<close>

datatype ('d, 'a) read_csv_result = Raised pystr | Returned "('d, 'a) frame"

text \<open>What the handlers show: \<^verbatim>\<open>st.success\<close>, \<^verbatim>\<open>st.sidebar.error\<close>, \<^verbatim>\<open>st.warning\<close>.\<close>

datatype message =
    Success_added
  | Success_loaded
  | Error_missing_columns
  | Error_load_failed pystr
  | Success_deleted
  | Warning_select_one

datatype py_error = KeyError

subsection \<open>Adding an entry (lines 20 to 40)\<close>

text \<open>
  The submitted form. \<^verbatim>\<open>number_input\<close> with \<^verbatim>\<open>min_value=0\<close> and integer arguments returns
  an integer that is not negative; the selectbox returns one of its two options.
\<close>

datatype entry_kind = Expense | Income

fun kind_label :: "entry_kind \<Rightarrow> pystr" where
  "kind_label Expense = expense_label"
| "kind_label Income = income_label"

record 'd form =
  entry_date :: 'd
  entry_type :: entry_kind
  entry_category :: pystr
  entry_amount :: nat
  entry_note :: pystr

definition new_row :: "'d form \<Rightarrow> ('d, 'a::semiring_1) row" where
  "new_row f =
     \<lparr> date = entry_date f,
       type = kind_label (entry_type f),
       category = (if strip (entry_category f) = [] then default_category
                   else strip (entry_category f)),
       amount = of_nat (entry_amount f),
       note' = entry_note f \<rparr>"

definition add_handler :: "('d, 'a::semiring_1) ledger \<Rightarrow> 'd form \<Rightarrow> ('d, 'a) ledger \<times> message" where
  "add_handler data f = (data @ [new_row f], Success_added)"

subsection \<open>Loading a CSV file (lines 45 to 55)\<close>

definition required_columns :: "pystr list" where
  "required_columns = [py ''date'', py ''type'', py ''category'', py ''amount'', py ''note'']"

definition upload_handler ::
  "('d, 'a) ledger \<Rightarrow> ('d, 'a) read_csv_result \<Rightarrow> ('d, 'a) ledger \<times> message" where
  "upload_handler data r =
     (case r of
        Raised e \<Rightarrow> (data, Error_load_failed e)
      | Returned df_up \<Rightarrow>
          if set required_columns \<subseteq> set (columns df_up)
          then (rows df_up, Success_loaded)
          else (data, Error_missing_columns))"

subsection \<open>The displayed view and the delete button (lines 62 to 79)\<close>

text \<open>
  \<open>sv asc df\<close> stands for \<^verbatim>\<open>df.sort_values("date", ascending=asc)\<close>. The program leaves
  \<^verbatim>\<open>kind\<close> at its default, so all that is asked of \<open>sv\<close> is that it returns the rows
  of \<open>df\<close> in date order.
\<close>

definition date_order :: "bool \<Rightarrow> ('d::linorder, 'a) row \<Rightarrow> ('d, 'a) row \<Rightarrow> bool" where
  "date_order asc r s = (if asc then date r \<le> date s else date s \<le> date r)"

definition sort_values_contract ::
  "(bool \<Rightarrow> ('d::linorder, 'a) ledger \<Rightarrow> ('d, 'a) ledger) \<Rightarrow> bool" where
  "sort_values_contract sv =
     (\<forall>asc df. mset (sv asc df) = mset df \<and> sorted_wrt (date_order asc) (sv asc df))"

text \<open>One function that meets the contract: insertion sort on the date.\<close>

definition sort_values_insertion :: "bool \<Rightarrow> ('d::linorder, 'a) ledger \<Rightarrow> ('d, 'a) ledger" where
  "sort_values_insertion asc df =
     (if asc then sort_key date df else rev (sort_key date (rev df)))"

text \<open>
  Lines 62 to 65. \<^verbatim>\<open>pd.to_datetime\<close> leaves a column of timestamps as it is. The view, the
  delete button, the summary and the chart are in the else branch of line 59: the page
  shows them when the ledger is not empty.
\<close>

definition display_view ::
  "(bool \<Rightarrow> ('d, 'a) ledger \<Rightarrow> ('d, 'a) ledger) \<Rightarrow> ('d, 'a) ledger \<Rightarrow> ('d, 'a) ledger" where
  "display_view sv data = sv False data"

text \<open>
  \<^verbatim>\<open>DataFrame.drop(index=labels)\<close> followed by \<^verbatim>\<open>reset_index(drop=True)\<close>: a label that is
  not in the index raises \<^verbatim>\<open>KeyError\<close>, otherwise the rows at the labels are left out.
\<close>

definition drop_index :: "nat list \<Rightarrow> 'r list \<Rightarrow> py_error + 'r list" where
  "drop_index labels df =
     (if list_ex (\<lambda>i. length df \<le> i) labels then Inl KeyError
      else Inr (map snd (filter (\<lambda>p. fst p \<notin> set labels) (enumerate 0 df))))"

text \<open>
  The body of \<^verbatim>\<open>if st.button(...)\<close>, lines 74 to 79. \<open>to_delete\<close> is the selection of the
  multiselect, whose options are the index of the displayed view.
\<close>

definition delete_button_handler ::
  "('d, 'a) ledger \<Rightarrow> nat list \<Rightarrow> py_error + ('d, 'a) ledger \<times> message" where
  "delete_button_handler data to_delete =
     (if to_delete \<noteq> [] then
        (case drop_index to_delete data of
           Inl e \<Rightarrow> Inl e
         | Inr data' \<Rightarrow> Inr (data', Success_deleted))
      else Inr (data, Warning_select_one))"

subsection \<open>Summary and cumulative balance (lines 83 to 107)\<close>

text \<open>\<^verbatim>\<open>df.loc[df["type"] == label, "amount"].sum()\<close>\<close>

definition total_by_type :: "pystr \<Rightarrow> ('d, 'a::ab_group_add) ledger \<Rightarrow> 'a" where
  "total_by_type label df = sum_list (map amount (filter (\<lambda>r. type r = label) df))"

definition total_income :: "('d, 'a::ab_group_add) ledger \<Rightarrow> 'a" where
  "total_income df = total_by_type income_label df"

definition total_expense :: "('d, 'a::ab_group_add) ledger \<Rightarrow> 'a" where
  "total_expense df = total_by_type expense_label df"

definition balance :: "('d, 'a::ab_group_add) ledger \<Rightarrow> 'a" where
  "balance df = total_income df - total_expense df"

text \<open>The lambda of line 106 and \<^verbatim>\<open>cumsum\<close>.\<close>

definition signed_amount :: "('d, 'a::ab_group_add) row \<Rightarrow> 'a" where
  "signed_amount r = (if type r = income_label then amount r else - amount r)"

fun cumsum_from :: "'a::ab_group_add \<Rightarrow> 'a list \<Rightarrow> 'a list" where
  "cumsum_from acc [] = []"
| "cumsum_from acc (x # xs) = (acc + x) # cumsum_from (acc + x) xs"

definition cumsum :: "'a::ab_group_add list \<Rightarrow> 'a list" where
  "cumsum xs = cumsum_from 0 xs"

text \<open>
  \<open>df\<close> is the displayed view; the series is the chart's data: date, signed amount,
  cumulative balance.
\<close>

definition cumulative_balance_series ::
  "(bool \<Rightarrow> ('d, 'a::ab_group_add) ledger \<Rightarrow> ('d, 'a) ledger) \<Rightarrow> ('d, 'a) ledger \<Rightarrow> ('d \<times> 'a \<times> 'a) list" where
  "cumulative_balance_series sv df =
     (let df_time = sv True df;
          signed = map signed_amount df_time
      in zip (map date df_time) (zip signed (cumsum signed)))"

subsection \<open>Reachable ledgers\<close>

text \<open>
  The session starts with the empty frame (lines 13 to 16); each run of the script may
  add the submitted form, load the uploaded file, or delete the selected rows.
\<close>

inductive reachable :: "('d, 'a::semiring_1) ledger \<Rightarrow> bool" where
  session_start: "reachable []"
| add: "reachable data \<Longrightarrow> reachable (fst (add_handler data f))"
| delete: "reachable data \<Longrightarrow> delete_button_handler data to_delete = Inr (data', m)
    \<Longrightarrow> reachable data'"
| upload: "reachable data \<Longrightarrow> reachable (fst (upload_handler data r))"

subsection \<open>Cells of an uploaded file\<close>

text \<open>
  A cell of a column \<^verbatim>\<open>read_csv\<close> could not convert as a whole: the column keeps the
  text of the file where a value does not parse. The handler is the same function at
  this type of cell, since it never looks into a cell.
\<close>

datatype 'v parsed = Parsed 'v | Unparsed pystr

fun malformed :: "'v parsed \<Rightarrow> bool" where
  "malformed (Parsed v) = False"
| "malformed (Unparsed s) = True"

subsection \<open>Sample rows and files\<close>

text \<open>Dates are written as the number yyyymmdd.\<close>

definition food_row :: "(nat, int) row" where
  "food_row = \<lparr> date = 20240101, type = expense_label, category = py ''Food'',
                 amount = 5000, note' = [] \<rparr>"

definition allowance_row :: "(nat, int) row" where
  "allowance_row = \<lparr> date = 20240102, type = income_label, category = py ''Allowance'',
                      amount = 10000, note' = [] \<rparr>"

definition savings_row :: "(nat, int) row" where
  "savings_row = \<lparr> date = 20240103, type = py ''savings'', category = py ''bank'',
                    amount = 100, note' = [] \<rparr>"

definition stored_row :: "(nat parsed, int parsed) row" where
  "stored_row = \<lparr> date = Parsed 20231231, type = income_label, category = py ''gift'',
                   amount = Parsed 300, note' = [] \<rparr>"

definition csv_negative_amount :: "(nat, int) frame" where
  "csv_negative_amount =
     \<lparr> columns = required_columns,
       rows = [\<lparr> date = 20240101, type = expense_label, category = py ''food'',
                 amount = - 500, note' = [] \<rparr>] \<rparr>"

definition csv_malformed :: "(nat parsed, int parsed) frame" where
  "csv_malformed =
     \<lparr> columns = required_columns,
       rows = [\<lparr> date = Parsed 20240101, type = expense_label, category = py ''food'',
                 amount = Parsed 5000, note' = [] \<rparr>,
               \<lparr> date = Unparsed (py ''someday''), type = income_label,
                 category = py ''gift'', amount = Unparsed (py ''lots''), note' = [] \<rparr>] \<rparr>"

definition csv_without_note :: "(nat, int) frame" where
  "csv_without_note =
     \<lparr> columns = [py ''date'', py ''type'', py ''category'', py ''amount''],
       rows = [\<lparr> date = 20240101, type = expense_label, category = py ''food'',
                 amount = 5000, note' = [] \<rparr>] \<rparr>"

section \<open>Auxiliary facts\<close>

lemma labels_distinct: "income_label \<noteq> expense_label"
  by (simp add: income_label_def expense_label_def)

lemma new_row_category_not_empty: "category (new_row f) \<noteq> []"
  by (simp add: new_row_def default_category_def)

subsection \<open>Totals do not depend on the order of the rows\<close>

lemma total_by_type_sum_mset:
  "total_by_type label df
   = sum_mset (image_mset amount (filter_mset (\<lambda>r. type r = label) (mset df)))"
  unfolding total_by_type_def
  by (metis mset_filter mset_map sum_mset_sum_list)

lemma total_by_type_mset:
  "mset df = mset df' \<Longrightarrow> total_by_type label df = total_by_type label df'"
  by (simp add: total_by_type_sum_mset)

lemma total_by_type_view:
  "sort_values_contract sv \<Longrightarrow> total_by_type label (sv asc df) = total_by_type label df"
  by (rule total_by_type_mset) (simp add: sort_values_contract_def)

lemma total_by_type_remove1:
  "type e \<noteq> label \<Longrightarrow> total_by_type label (remove1 e df) = total_by_type label df"
  by (induction df) (auto simp: total_by_type_def)

subsection \<open>Insertion sort meets the contract\<close>

lemma sort_values_insertion_contract: "sort_values_contract sort_values_insertion"
proof -
  have asc: "sorted_wrt (\<lambda>r s. date r \<le> date s) (sort_key date df)"
    for df :: "('a, 'b) ledger"
    using sorted_sort_key [of date df] by (simp add: sorted_map)
  have desc: "sorted_wrt (\<lambda>r s. date s \<le> date r) (rev (sort_key date (rev df)))"
    for df :: "('a, 'b) ledger"
    using asc [of "rev df"] by (simp add: sorted_wrt_rev)
  show ?thesis
    unfolding sort_values_contract_def sort_values_insertion_def date_order_def
    using asc desc by simp
qed

subsection \<open>The running total\<close>

lemma cumsum_from_length: "length (cumsum_from acc xs) = length xs"
  by (induction xs arbitrary: acc) auto

lemma last_cumsum_from: "xs \<noteq> [] \<Longrightarrow> last (cumsum_from acc xs) = acc + sum_list xs"
proof (induction xs arbitrary: acc)
  case Nil
  then show ?case by simp
next
  case (Cons x xs)
  show ?case
  proof (cases xs)
    case Nil
    then show ?thesis by simp
  next
    case (Cons y ys)
    then have "cumsum_from (acc + x) xs \<noteq> []" by simp
    then show ?thesis using Cons.IH [of "acc + x"] Cons by (simp add: add.assoc)
  qed
qed

lemma last_cumsum: "xs \<noteq> [] \<Longrightarrow> last (cumsum xs) = sum_list xs"
  by (simp add: cumsum_def last_cumsum_from)

lemma sum_list_signed:
  "sum_list (map signed_amount df) =
     total_by_type income_label df
     - sum_list (map amount (filter (\<lambda>r. type r \<noteq> income_label) df))"
  by (induction df) (simp_all add: signed_amount_def total_by_type_def)

lemma filter_not_income:
  "list_all (\<lambda>r. type r = income_label \<or> type r = expense_label) df \<Longrightarrow>
   filter (\<lambda>r. type r \<noteq> income_label) df = filter (\<lambda>r. type r = expense_label) df"
  using labels_distinct by (induction df) auto

text \<open>
  On a ledger whose rows are all income or expense rows, the chart ends at the balance
  of the summary.
\<close>

lemma series_ends_at_balance:
  assumes sv: "sort_values_contract sv"
    and two: "list_all (\<lambda>r. type r = income_label \<or> type r = expense_label) df"
    and ne: "df \<noteq> []"
  shows "snd (snd (last (cumulative_balance_series sv df))) = balance df"
proof -
  define df_time where "df_time = sv True df"
  define signed where "signed = map signed_amount df_time"
  have m: "mset df_time = mset df"
    using sv by (simp add: df_time_def sort_values_contract_def)
  then have "set df_time = set df" by (rule mset_eq_setD)
  with two have two': "list_all (\<lambda>r. type r = income_label \<or> type r = expense_label) df_time"
    by (simp add: list_all_iff)
  from m ne have ne': "df_time \<noteq> []" by auto
  then have sne: "signed \<noteq> []" by (simp add: signed_def)
  then have cne: "cumsum signed \<noteq> []"
    using cumsum_from_length [of 0 signed] by (auto simp: cumsum_def)
  have len: "length signed = length (cumsum signed)"
    by (simp add: cumsum_def cumsum_from_length)
  have zne: "zip signed (cumsum signed) \<noteq> []"
    using sne cne by (cases signed; cases "cumsum signed") auto
  have "last (cumulative_balance_series sv df)
        = (last (map date df_time), last (zip signed (cumsum signed)))"
    unfolding cumulative_balance_series_def Let_def df_time_def [symmetric] signed_def [symmetric]
    using ne' zne len by (intro last_zip) (simp_all add: signed_def)
  also have "last (zip signed (cumsum signed)) = (last signed, last (cumsum signed))"
    using sne cne len by (rule last_zip)
  finally have "snd (snd (last (cumulative_balance_series sv df))) = sum_list signed"
    using sne by (simp add: last_cumsum)
  also have "\<dots> = total_by_type income_label df_time - total_by_type expense_label df_time"
    unfolding signed_def sum_list_signed filter_not_income [OF two']
    by (simp add: total_by_type_def)
  also have "\<dots> = balance df"
    by (simp add: balance_def total_income_def total_expense_def total_by_type_mset [OF m])
  finally show ?thesis .
qed

subsection \<open>The form and the delete button keep amounts non-negative\<close>

lemma add_keeps_amounts_nonnegative:
  fixes data :: "('d, 'a::linordered_semidom) ledger"
  shows "list_all (\<lambda>r. 0 \<le> amount r) data \<Longrightarrow>
    list_all (\<lambda>r. 0 \<le> amount r) (fst (add_handler data f))"
  by (simp add: add_handler_def new_row_def)

lemma drop_index_subset: "drop_index labels df = Inr df' \<Longrightarrow> set df' \<subseteq> set df"
  by (auto simp: drop_index_def in_set_enumerate_eq split: if_splits)

lemma delete_keeps_rows:
  "delete_button_handler data to_delete = Inr (data', m) \<Longrightarrow>
   list_all P data \<Longrightarrow> list_all P data'"
  by (auto simp: delete_button_handler_def list_all_iff split: if_splits sum.splits
      dest!: drop_index_subset)

subsection \<open>Positions in the view and in the stored frame\<close>

text \<open>
  Whatever function sorts, two rows of different dates are shown latest first; and the
  delete button, given one position, removes the row stored at that position.
\<close>

lemma view_of_two_rows:
  assumes sv: "sort_values_contract sv" and lt: "date a < date b"
  shows "display_view sv [a, b] = [b, a]"
proof -
  have m: "mset (sv False [a, b]) = {#a, b#}"
    using sv by (simp add: sort_values_contract_def)
  have s: "sorted_wrt (date_order False) (sv False [a, b])"
    using sv by (simp add: sort_values_contract_def)
  from m have "size (mset (sv False [a, b])) = 2" by simp
  then have "length (sv False [a, b]) = 2" by simp
  then obtain x y where xy: "sv False [a, b] = [x, y]"
    by (auto simp: length_Suc_conv numeral_2_eq_2)
  with m have "{#x, y#} = {#a, b#}" by simp
  then have "(x = a \<and> y = b) \<or> (x = b \<and> y = a)"
    by (auto simp: add_eq_conv_ex)
  moreover from s xy have "date y \<le> date x" by (simp add: date_order_def)
  ultimately have "x = b \<and> y = a" using lt by auto
  with xy show ?thesis by (simp add: display_view_def)
qed

lemma drop_index_single:
  "i < length df \<Longrightarrow> drop_index [i] df = Inr (take i df @ drop (Suc i) df)"
proof (induction df arbitrary: i rule: rev_induct)
  case Nil
  then show ?case by simp
next
  case (snoc x xs)
  show ?case
  proof (cases "i < length xs")
    case True
    with snoc.IH [of i] show ?thesis
      by (simp add: drop_index_def enumerate_append_eq)
  next
    case False
    with snoc.prems have i: "i = length xs" by simp
    have "filter (\<lambda>p. fst p \<noteq> length xs) (enumerate 0 xs) = enumerate 0 xs"
      by (rule filter_True) (auto simp: in_set_enumerate_eq)
    then show ?thesis by (simp add: drop_index_def enumerate_append_eq i)
  qed
qed

lemma delete_single_position:
  "i < length data \<Longrightarrow>
   delete_button_handler data [i] = Inr (take i data @ drop (Suc i) data, Success_deleted)"
  by (simp add: delete_button_handler_def drop_index_single)

section \<open>Properties\<close>

text \<open>
  C1. The claim: every ledger reached from the empty one by adding, deleting and loading
  holds only amounts that are not negative. The form cannot submit a negative amount
  (\<^verbatim>\<open>min_value=0\<close>, line 25), but the upload handler copies the amount column as it was
  read: loading a file with the amount -500 into the empty ledger succeeds, and the
  reachable ledger then holds -500.
\<close>

theorem import_negative_amount:
  "upload_handler [] (Returned csv_negative_amount) = (rows csv_negative_amount, Success_loaded)
   \<and> reachable (rows csv_negative_amount)
   \<and> map amount (rows csv_negative_amount) = [- 500]"
proof -
  have u: "upload_handler [] (Returned csv_negative_amount)
           = (rows csv_negative_amount, Success_loaded)"
    by (simp add: upload_handler_def csv_negative_amount_def)
  have "reachable (fst (upload_handler ([] :: (nat, int) ledger) (Returned csv_negative_amount)))"
    by (rule reachable.upload) (rule reachable.session_start)
  with u have "reachable (rows csv_negative_amount)" by simp
  moreover have "map amount (rows csv_negative_amount) = [- 500]"
    by (simp add: csv_negative_amount_def)
  ultimately show ?thesis using u by simp
qed

text \<open>
  C2. The claim: a file with all required columns in which some row has a malformed
  amount or date fails as a whole, and none of its rows reaches the ledger. The handler
  does not look at cells. The file \<open>csv_malformed\<close> has all required columns and a row
  whose date and amount did not parse; loading it succeeds and both rows are stored.
\<close>

theorem import_malformed_rows_counterexample:
  "set required_columns \<subseteq> set (columns csv_malformed)
   \<and> list_ex (\<lambda>r. malformed (amount r)) (rows csv_malformed)
   \<and> list_ex (\<lambda>r. malformed (date r)) (rows csv_malformed)
   \<and> upload_handler [] (Returned csv_malformed) = (rows csv_malformed, Success_loaded)
   \<and> length (rows csv_malformed) = 2"
  by (simp add: upload_handler_def csv_malformed_def)

text \<open>
  C2, as amended. A file with all required columns is loaded whole: the ledger becomes
  the rows of the file, whatever their cells hold. The load fails, with the text of the
  exception and the ledger as it was, when \<^verbatim>\<open>read_csv\<close> itself raised.
\<close>

theorem import_takes_every_row:
  assumes "set required_columns \<subseteq> set (columns df_up)"
  shows "upload_handler data (Returned df_up) = (rows df_up, Success_loaded)
         \<and> upload_handler data (Raised e) = (data, Error_load_failed e)"
  using assms by (simp add: upload_handler_def)

theorem import_takes_every_row_witness:
  "set required_columns \<subseteq> set (columns csv_malformed)
   \<and> upload_handler [stored_row] (Returned csv_malformed) = (rows csv_malformed, Success_loaded)
   \<and> upload_handler [stored_row] (Raised (py ''EmptyDataError''))
       = ([stored_row], Error_load_failed (py ''EmptyDataError''))"
proof -
  have h: "set required_columns \<subseteq> set (columns csv_malformed)"
    by (simp add: csv_malformed_def)
  show ?thesis
    using h import_takes_every_row [OF h, of "[stored_row]" "py ''EmptyDataError''"] by simp
qed

text \<open>
  C3. The claim: the delete button removes the rows at the selected positions of the
  displayed view. The options of the multiselect are the positions of the view (line 72),
  but line 75 drops those labels from the stored frame. With the food row of January 1
  stored before the allowance row of January 2, the view shows the allowance row at
  position 0; selecting 0 removes the food row and the allowance row stays.
\<close>

theorem delete_by_stored_position:
  "display_view sort_values_insertion [food_row, allowance_row] = [allowance_row, food_row]
   \<and> delete_button_handler [food_row, allowance_row] [0] = Inr ([allowance_row], Success_deleted)"
  by (simp add: display_view_def sort_values_insertion_def delete_button_handler_def
      drop_index_def enumerate_eq_zip food_row_def allowance_row_def)

text \<open>
  C5. A frame that lacks one of the required columns is rejected with the missing-columns
  error, and the ledger stays as it was. (When \<^verbatim>\<open>read_csv\<close> itself refuses the file, the
  handler reports that exception instead; the ledger stays as it was then, too.)
\<close>

theorem import_missing_column:
  assumes "\<not> set required_columns \<subseteq> set (columns df_up)"
  shows "upload_handler data (Returned df_up) = (data, Error_missing_columns)
         \<and> fst (upload_handler data (Raised e)) = data"
  using assms by (simp add: upload_handler_def)

theorem import_missing_column_witness:
  "\<not> set required_columns \<subseteq> set (columns csv_without_note)
   \<and> upload_handler [allowance_row] (Returned csv_without_note)
       = ([allowance_row], Error_missing_columns)"
proof -
  have h: "\<not> set required_columns \<subseteq> set (columns csv_without_note)"
    by (simp add: csv_without_note_def required_columns_def py_def)
  show ?thesis using h import_missing_column [OF h, of "[allowance_row]"] by simp
qed

text \<open>
  C6. The balance the page shows is its income total minus its expense total (line 85),
  and these two totals, which the page computes on the sorted view, are the sum of the
  amounts of the income rows and of the expense rows of the ledger.
\<close>

theorem balance_is_income_minus_expense:
  assumes "sort_values_contract sv"
  shows "balance (display_view sv data)
           = total_income (display_view sv data) - total_expense (display_view sv data)
         \<and> total_income (display_view sv data) = total_by_type income_label data
         \<and> total_expense (display_view sv data) = total_by_type expense_label data"
  using assms
  by (simp add: balance_def total_income_def total_expense_def display_view_def
      total_by_type_view)

theorem balance_is_income_minus_expense_witness:
  "sort_values_contract (sort_values_insertion :: bool \<Rightarrow> (nat, int) ledger \<Rightarrow> (nat, int) ledger)
   \<and> balance (display_view sort_values_insertion [food_row, allowance_row]) = 5000
   \<and> total_income (display_view sort_values_insertion [food_row, allowance_row]) = 10000
   \<and> total_expense (display_view sort_values_insertion [food_row, allowance_row]) = 5000"
proof -
  have t: "total_by_type income_label [food_row, allowance_row] = 10000"
    "total_by_type expense_label [food_row, allowance_row] = 5000"
    by (simp_all add: total_by_type_def food_row_def allowance_row_def
        income_label_def expense_label_def)
  show ?thesis
    using balance_is_income_minus_expense [OF sort_values_insertion_contract,
        of "[food_row, allowance_row]"] t sort_values_insertion_contract
    by simp
qed

text \<open>
  C7. The claim: the last cumulative balance of the chart is the balance of the summary.
  Line 106 gives a minus sign to every row that is not an income row, while line 84 sums
  only the rows labelled expense. A loaded row of another type is therefore subtracted
  in the chart and ignored in the summary: with the single row \<open>savings_row\<close> of amount
  100 the balance is 0 and the chart ends at -100.
\<close>

theorem series_counts_other_type_as_expense:
  "upload_handler [] (Returned \<lparr>columns = required_columns, rows = [savings_row]\<rparr>)
     = ([savings_row], Success_loaded)
   \<and> balance (display_view sort_values_insertion [savings_row]) = 0
   \<and> cumulative_balance_series sort_values_insertion
        (display_view sort_values_insertion [savings_row])
     = [(20240103, - 100, - 100)]"
  by (simp add: upload_handler_def display_view_def sort_values_insertion_def balance_def
      total_income_def total_expense_def total_by_type_def cumulative_balance_series_def
      cumsum_def signed_amount_def savings_row_def income_label_def expense_label_def py_def)

text \<open>
  C9. Pressing the delete button with nothing selected shows the warning and leaves the
  ledger as it was, for every ledger.
\<close>

theorem delete_nothing_selected:
  "delete_button_handler data [] = Inr (data, Warning_select_one)"
  by (simp add: delete_button_handler_def)

text \<open>
  C10. A ledger may hold a row whose type is neither the income nor the expense label:
  the upload handler stores any type it is given. Such a row counts in neither total,
  so the totals and the balance of the summary are those of the ledger without it.
\<close>

theorem other_type_is_ignored:
  assumes "sort_values_contract sv"
    and "e \<in> set data"
    and "type e \<noteq> income_label" and "type e \<noteq> expense_label"
  shows "total_income (display_view sv data) = total_income (remove1 e data)
       \<and> total_expense (display_view sv data) = total_expense (remove1 e data)
       \<and> balance (display_view sv data) = balance (remove1 e data)
       \<and> upload_handler data0 (Returned \<lparr>columns = required_columns, rows = data\<rparr>)
           = (data, Success_loaded)"
  using assms
  by (simp add: balance_def total_income_def total_expense_def display_view_def
      total_by_type_view total_by_type_remove1 upload_handler_def)

theorem other_type_is_ignored_witness:
  "sort_values_contract (sort_values_insertion :: bool \<Rightarrow> (nat, int) ledger \<Rightarrow> (nat, int) ledger)
   \<and> savings_row \<in> set [food_row, savings_row, allowance_row]
   \<and> type savings_row \<noteq> income_label \<and> type savings_row \<noteq> expense_label
   \<and> total_income (display_view sort_values_insertion [food_row, savings_row, allowance_row])
       = 10000
   \<and> total_expense (display_view sort_values_insertion [food_row, savings_row, allowance_row])
       = 5000
   \<and> balance (display_view sort_values_insertion [food_row, savings_row, allowance_row]) = 5000
   \<and> upload_handler [] (Returned \<lparr>columns = required_columns,
         rows = [food_row, savings_row, allowance_row]\<rparr>)
       = ([food_row, savings_row, allowance_row], Success_loaded)"
proof -
  have m: "savings_row \<in> set [food_row, savings_row, allowance_row]" by simp
  have i: "type savings_row \<noteq> income_label" and x: "type savings_row \<noteq> expense_label"
    by (simp_all add: savings_row_def income_label_def expense_label_def py_def)
  have r: "remove1 savings_row [food_row, savings_row, allowance_row] = [food_row, allowance_row]"
    by (simp add: savings_row_def food_row_def)
  have t: "total_income [food_row, allowance_row] = 10000"
    "total_expense [food_row, allowance_row] = 5000"
    "balance [food_row, allowance_row] = 5000"
    by (simp_all add: balance_def total_income_def total_expense_def total_by_type_def
        food_row_def allowance_row_def income_label_def expense_label_def)
  show ?thesis
    using other_type_is_ignored [OF sort_values_insertion_contract m i x, of "[]"]
      sort_values_insertion_contract m i x
    unfolding r t by simp
qed

end
